theory Spec2Isabelle
  imports Main "HOL-Library.Word" "HOL-Library.Product_Lexorder" "HOL-Library.List_Lexorder"
begin

section \<open>Data model of lib/Format/ContinuationIndenter.h\<close>

text \<open>
  C++ \<open>unsigned\<close> is a 32-bit word; \<open><\<close> on words is the unsigned comparison.
  A pointer (\<open>const FormatToken *\<close>, \<open>const AnnotatedLine *\<close>) is its address in a flat
  address space; \<open><\<close> and \<open>!=\<close> on pointers compare addresses.
\<close>

type_synonym unsigned = "32 word"
type_synonym ptr = nat

text \<open>\<open>struct ParenState\<close>, fields in declaration order.\<close>

record ParenState =
  Indent :: unsigned
  LastSpace :: unsigned
  FirstLessLess :: unsigned
  BreakBeforeClosingBrace :: bool
  QuestionColumn :: unsigned
  AvoidBinPacking :: bool
  BreakBeforeParameter :: bool
  NoLineBreak :: bool
  ColonPos :: unsigned
  StartOfFunctionCall :: unsigned
  StartOfArraySubscripts :: unsigned
  NestedNameSpecifierContinuation :: unsigned
  CallContinuation :: unsigned
  VariablePos :: unsigned
  ContainsLineBreak :: bool
  ContainsUnwrappedBuilder :: bool

text \<open>
  The constructor \<open>ParenState(Indent, LastSpace, AvoidBinPacking, NoLineBreak)\<close>;
  the initialiser \<open>ContainsUnwrappedBuilder(0)\<close> converts 0 to \<open>false\<close>.
\<close>

definition mkParenState :: "unsigned \<Rightarrow> unsigned \<Rightarrow> bool \<Rightarrow> bool \<Rightarrow> ParenState" where
  "mkParenState indent lastSpace avoidBinPacking noLineBreak =
     \<lparr> Indent = indent, LastSpace = lastSpace, FirstLessLess = 0,
       BreakBeforeClosingBrace = False, QuestionColumn = 0,
       AvoidBinPacking = avoidBinPacking, BreakBeforeParameter = False,
       NoLineBreak = noLineBreak, ColonPos = 0, StartOfFunctionCall = 0,
       StartOfArraySubscripts = 0, NestedNameSpecifierContinuation = 0,
       CallContinuation = 0, VariablePos = 0, ContainsLineBreak = False,
       ContainsUnwrappedBuilder = False \<rparr>"

text \<open>
  \<open>ParenState::operator<\<close>, branch by branch. Where the source returns a \<open>bool\<close>
  field itself (\<open>return BreakBeforeClosingBrace;\<close>) the state holding \<open>true\<close> is the
  smaller one; where it returns \<open>a < b\<close> on two \<open>bool\<close>s, both are promoted to
  \<open>int\<close> and \<open>false\<close> is the smaller one, as with \<open><\<close> on HOL's \<open>bool\<close>.
\<close>

definition parenLess :: "ParenState \<Rightarrow> ParenState \<Rightarrow> bool" where
  "parenLess P Other =
    (if Indent P \<noteq> Indent Other then Indent P < Indent Other
     else if LastSpace P \<noteq> LastSpace Other then LastSpace P < LastSpace Other
     else if FirstLessLess P \<noteq> FirstLessLess Other
       then FirstLessLess P < FirstLessLess Other
     else if BreakBeforeClosingBrace P \<noteq> BreakBeforeClosingBrace Other
       then BreakBeforeClosingBrace P
     else if QuestionColumn P \<noteq> QuestionColumn Other
       then QuestionColumn P < QuestionColumn Other
     else if AvoidBinPacking P \<noteq> AvoidBinPacking Other then AvoidBinPacking P
     else if BreakBeforeParameter P \<noteq> BreakBeforeParameter Other
       then BreakBeforeParameter P
     else if NoLineBreak P \<noteq> NoLineBreak Other then NoLineBreak P
     else if ColonPos P \<noteq> ColonPos Other then ColonPos P < ColonPos Other
     else if StartOfFunctionCall P \<noteq> StartOfFunctionCall Other
       then StartOfFunctionCall P < StartOfFunctionCall Other
     else if StartOfArraySubscripts P \<noteq> StartOfArraySubscripts Other
       then StartOfArraySubscripts P < StartOfArraySubscripts Other
     else if CallContinuation P \<noteq> CallContinuation Other
       then CallContinuation P < CallContinuation Other
     else if VariablePos P \<noteq> VariablePos Other then VariablePos P < VariablePos Other
     else if ContainsLineBreak P \<noteq> ContainsLineBreak Other
       then ContainsLineBreak P < ContainsLineBreak Other
     else if ContainsUnwrappedBuilder P \<noteq> ContainsUnwrappedBuilder Other
       then ContainsUnwrappedBuilder P < ContainsUnwrappedBuilder Other
     else False)"

text \<open>
  \<open>Stack < Other.Stack\<close> on \<open>std::vector<ParenState>\<close> is
  \<open>std::lexicographical_compare\<close> with the element's \<open>operator<\<close>: walk both
  sequences together; the first position where one element is less than the other
  decides; when one sequence ends, the shorter is the smaller.
\<close>

fun vectorLess :: "ParenState list \<Rightarrow> ParenState list \<Rightarrow> bool" where
  "vectorLess [] [] = False"
| "vectorLess [] (y # ys) = True"
| "vectorLess (x # xs) [] = False"
| "vectorLess (x # xs) (y # ys) =
     (if parenLess x y then True
      else if parenLess y x then False
      else vectorLess xs ys)"

text \<open>\<open>struct LineState\<close>, fields in declaration order.\<close>

record LineState =
  Column :: unsigned
  NextToken :: ptr
  LineContainsContinuedForLoopSection :: bool
  ParenLevel :: unsigned
  StartOfLineLevel :: unsigned
  LowestLevelOnLine :: unsigned
  StartOfStringLiteral :: unsigned
  Stack :: "ParenState list"
  IgnoreStackForComparison :: bool
  FirstIndent :: unsigned
  Line :: ptr

text \<open>\<open>LineState::operator<\<close>, branch by branch.\<close>

definition lineLess :: "LineState \<Rightarrow> LineState \<Rightarrow> bool" where
  "lineLess S Other =
    (if NextToken S \<noteq> NextToken Other then NextToken S < NextToken Other
     else if Column S \<noteq> Column Other then Column S < Column Other
     else if LineContainsContinuedForLoopSection S \<noteq>
             LineContainsContinuedForLoopSection Other
       then LineContainsContinuedForLoopSection S
     else if ParenLevel S \<noteq> ParenLevel Other then ParenLevel S < ParenLevel Other
     else if StartOfLineLevel S \<noteq> StartOfLineLevel Other
       then StartOfLineLevel S < StartOfLineLevel Other
     else if LowestLevelOnLine S \<noteq> LowestLevelOnLine Other
       then LowestLevelOnLine S < LowestLevelOnLine Other
     else if StartOfStringLiteral S \<noteq> StartOfStringLiteral Other
       then StartOfStringLiteral S < StartOfStringLiteral Other
     else if IgnoreStackForComparison S \<or> IgnoreStackForComparison Other then False
     else vectorLess (Stack S) (Stack Other))"

section \<open>Data model of lib/Format/UnwrappedLineParser.h\<close>

text \<open>
  \<open>struct UnwrappedLine\<close> and \<open>struct UnwrappedLineNode\<close> refer to each other:
  a line is a list of nodes, a node is a token pointer with its child lines.
\<close>

datatype UnwrappedLine =
  UnwrappedLine (Tokens: "UnwrappedLineNode list") (Level: unsigned)
    (InPPDirective: bool) (MustBeDeclaration: bool)
and UnwrappedLineNode =
  UnwrappedLineNode (Tok: ptr) (Children: "UnwrappedLine list")

text \<open>
  The inline constructor \<open>UnwrappedLine::UnwrappedLine()\<close>: the three initialisers
  of the source; \<open>Tokens\<close>, a \<open>std::list\<close> without an initialiser, is
  default-constructed, that is, empty.
\<close>

definition UnwrappedLine_ctor :: UnwrappedLine where
  "UnwrappedLine_ctor = UnwrappedLine [] 0 False False"

text \<open>\<open>enum PPBranchKind\<close> of \<open>UnwrappedLineParser\<close>.\<close>

datatype PPBranchKind = PP_Conditional | PP_Unreachable

section \<open>The comparisons as lexicographic orders\<close>

text \<open>
  The fields that \<open>ParenState::operator<\<close> reads, in the order it reads them, as one
  tuple under the lexicographic order of products. A flag whose branch returns the flag
  itself enters negated, so that \<open>true\<close> comes first.
\<close>

definition paren_key where
  "paren_key P =
    (Indent P, LastSpace P, FirstLessLess P, \<not> BreakBeforeClosingBrace P,
     QuestionColumn P, \<not> AvoidBinPacking P, \<not> BreakBeforeParameter P, \<not> NoLineBreak P,
     ColonPos P, StartOfFunctionCall P, StartOfArraySubscripts P, CallContinuation P,
     VariablePos P, ContainsLineBreak P, ContainsUnwrappedBuilder P)"

text \<open>
  The specification's sequence for Search States: next token identity, column, the
  continued-for-loop flag, current, starting and lowest nesting depth, and the
  string-literal-start column.
\<close>

definition line_key where
  "line_key S =
    (NextToken S, Column S, \<not> LineContainsContinuedForLoopSection S,
     ParenLevel S, StartOfLineLevel S, LowestLevelOnLine S, StartOfStringLiteral S)"

text \<open>Two states are equivalent for memoization when neither is less than the other.\<close>

definition incomparable :: "LineState \<Rightarrow> LineState \<Rightarrow> bool" where
  "incomparable A B \<longleftrightarrow> \<not> lineLess A B \<and> \<not> lineLess B A"

text \<open>
  A Search State for concrete instances: at token address 0 and column 0, every depth 0,
  with the given stack, stack-ignored flag, first indent and line address.
\<close>

definition sampleState :: "ParenState list \<Rightarrow> bool \<Rightarrow> unsigned \<Rightarrow> ptr \<Rightarrow> LineState" where
  "sampleState stack ignoreStack firstIndent line =
     \<lparr> Column = 0, NextToken = 0, LineContainsContinuedForLoopSection = False,
       ParenLevel = 0, StartOfLineLevel = 0, LowestLevelOnLine = 0,
       StartOfStringLiteral = 0, Stack = stack,
       IgnoreStackForComparison = ignoreStack, FirstIndent = firstIndent, Line = line \<rparr>"

section \<open>The Line Builder's preprocessor handling\<close>

text \<open>
  \<open>UnwrappedLineParser.h\<close> declares the parser's fields and member functions; their
  bodies are not among the sources. The record below takes the fields from the header
  (those the preprocessor handling uses); the operations on it are modelled from the
  specification and from the comments the header attaches to the fields.

  \<open>CurrentLines\<close> is a pointer to one of the two line vectors: "Usually points to
  \<open>&Lines\<close>. While parsing a preprocessor directive when there is an unfinished previous
  unwrapped line, will point to \<open>&PreprocessorDirectives\<close>."
\<close>

datatype LinesTarget = ToLines | ToPreprocessorDirectives

record UnwrappedLineParser =
  Line :: UnwrappedLine
  Lines :: "UnwrappedLine list"
  PreprocessorDirectives :: "UnwrappedLine list"
  CurrentLines :: LinesTarget
  StructuralError :: bool
  PPStack :: "PPBranchKind list"

text \<open>
  Modelled from the spec: the constructor of \<open>UnwrappedLineParser\<close> is only declared.
  Before any token is read there is an empty line in progress, no emitted or buffered line,
  new lines go to \<open>Lines\<close>, no structural error, and no open conditional.
\<close>

definition initialParser :: UnwrappedLineParser where
  "initialParser =
     \<lparr> Line = UnwrappedLine_ctor, Lines = [], PreprocessorDirectives = [],
       CurrentLines = ToLines, StructuralError = False, PPStack = [] \<rparr>"

text \<open>
  Modelled from the spec: the token stream as the Line Builder reads it. The tokenizer and
  the structural grammar are outside the sources, so the stream carries their verdicts:
  an ordinary token; a stray token, one that structural validation cannot place (the
  specification's "unbalanced braces, stray tokens"); the point where the logical line in
  progress completes; and a preprocessor directive, with the token \<open>#\<close> and the rest of
  its tokens. \<open>PP_if c\<close> is \<open>#if\<close>, with \<open>c\<close> true when the condition is
  always false (\<open>#if 0\<close>); \<open>PP_ifdef\<close> stands for \<open>#ifdef\<close> and \<open>#ifndef\<close>;
  \<open>PP_other\<close> is any directive that is not a conditional.
\<close>

datatype PPDirective = PP_if bool | PP_ifdef | PP_elif | PP_else | PP_endif | PP_other

datatype Input =
  Token ptr | StrayToken ptr | EndOfLine | Directive PPDirective ptr "ptr list"

text \<open>
  A line with one more token at its end, and a line with its tokens removed
  (\<open>Line->Tokens.clear()\<close>); the other fields of the line stay.
\<close>

fun addNode :: "UnwrappedLine \<Rightarrow> ptr \<Rightarrow> UnwrappedLine" where
  "addNode (UnwrappedLine ts l pp d) t =
     UnwrappedLine (ts @ [UnwrappedLineNode t []]) l pp d"

fun clearTokens :: "UnwrappedLine \<Rightarrow> UnwrappedLine" where
  "clearTokens (UnwrappedLine ts l pp d) = UnwrappedLine [] l pp d"

text \<open>
  Modelled from the spec: \<open>pushToken\<close> is only declared. A Logical Line is "an ordered
  sequence of Tokens": the token is appended to the line in progress.
\<close>

definition pushToken :: "ptr \<Rightarrow> UnwrappedLineParser \<Rightarrow> UnwrappedLineParser" where
  "pushToken t P = P\<lparr>Line := addNode (Line P) t\<rparr>"

text \<open>
  Modelled from the spec: \<open>addUnwrappedLine\<close> is only declared. The line in progress
  completes: it is appended to the vector \<open>CurrentLines\<close> selects ("New unwrapped lines
  are added via \<open>CurrentLines\<close>") and a new line starts. When that vector is \<open>Lines\<close>,
  the buffered directives follow it at once ("a list of preprocessor directives to be
  reported after an unwrapped line that has been started was finished"; "flushed once the
  interrupted line completes"). A line without tokens is no line: nothing happens.
\<close>

definition addUnwrappedLine :: "UnwrappedLineParser \<Rightarrow> UnwrappedLineParser" where
  "addUnwrappedLine P =
    (if Tokens (Line P) = [] then P
     else case CurrentLines P of
       ToPreprocessorDirectives \<Rightarrow>
         P\<lparr>PreprocessorDirectives := PreprocessorDirectives P @ [Line P],
           Line := clearTokens (Line P)\<rparr>
     | ToLines \<Rightarrow>
         P\<lparr>Lines := Lines P @ [Line P] @ PreprocessorDirectives P,
           PreprocessorDirectives := [],
           Line := clearTokens (Line P)\<rparr>)"

text \<open>
  Modelled from the spec: no function of the header names this test. The parser is inside
  an unreachable branch when the innermost open conditional is one. \<open>PPStack\<close> is a
  \<open>SmallVector\<close>: \<open>push_back\<close> appends, \<open>back()\<close> is the last element.
\<close>

definition unreachable :: "UnwrappedLineParser \<Rightarrow> bool" where
  "unreachable P \<longleftrightarrow> PPStack P \<noteq> [] \<and> last (PPStack P) = PP_Unreachable"

text \<open>
  Modelled from the spec: \<open>pushPPConditional\<close> is only declared. The enumeration's
  comments say which kind a new branch gets: \<open>PP_Unreachable\<close> for "a conditional
  preprocessor block inside \<open>#if 0\<close>", \<open>PP_Conditional\<close> for a block "outside \<open>#if 0\<close>".
\<close>

definition pushPPConditional :: "UnwrappedLineParser \<Rightarrow> UnwrappedLineParser" where
  "pushPPConditional P =
    (if unreachable P then P\<lparr>PPStack := PPStack P @ [PP_Unreachable]\<rparr>
     else P\<lparr>PPStack := PPStack P @ [PP_Conditional]\<rparr>)"

text \<open>
  Modelled from the spec: the end of a branch, part of the undefined \<open>parsePPElIf\<close>,
  \<open>parsePPElse\<close> and \<open>parsePPEndIf\<close>. The branch that ends is removed from the
  stack; a directive that closes a conditional where none is open leaves the empty stack
  as it is.
\<close>

definition popPP :: "UnwrappedLineParser \<Rightarrow> UnwrappedLineParser" where
  "popPP P = (if PPStack P = [] then P else P\<lparr>PPStack := butlast (PPStack P)\<rparr>)"

text \<open>
  Modelled from the spec: \<open>parsePPIf\<close>, \<open>parsePPIfdef\<close>, \<open>parsePPElIf\<close>,
  \<open>parsePPElse\<close> and \<open>parsePPEndIf\<close> are only declared. "Conditional directives are
  tracked on a branch-kind stack": \<open>#if 0\<close> opens an unreachable branch, every other
  \<open>#if\<close>, \<open>#ifdef\<close> and \<open>#ifndef\<close> opens a branch of the kind its surroundings
  give it; \<open>#elif\<close> and \<open>#else\<close> end the branch before them and open the next one
  in the same surroundings; \<open>#endif\<close> ends the branch.
\<close>

definition parsePPIf :: "bool \<Rightarrow> UnwrappedLineParser \<Rightarrow> UnwrappedLineParser" where
  "parsePPIf alwaysFalse P =
    (if alwaysFalse then P\<lparr>PPStack := PPStack P @ [PP_Unreachable]\<rparr>
     else pushPPConditional P)"

definition parsePPIfdef :: "UnwrappedLineParser \<Rightarrow> UnwrappedLineParser" where
  "parsePPIfdef P = pushPPConditional P"

definition parsePPElIf :: "UnwrappedLineParser \<Rightarrow> UnwrappedLineParser" where
  "parsePPElIf P = pushPPConditional (popPP P)"

definition parsePPElse :: "UnwrappedLineParser \<Rightarrow> UnwrappedLineParser" where
  "parsePPElse P = pushPPConditional (popPP P)"

definition parsePPEndIf :: "UnwrappedLineParser \<Rightarrow> UnwrappedLineParser" where
  "parsePPEndIf P = popPP P"

text \<open>
  Modelled from the spec: the choice among these by the directive's keyword, part of the
  undefined \<open>parsePPDirective\<close>. A directive that is not a conditional leaves the
  stack alone.
\<close>

fun trackBranch :: "PPDirective \<Rightarrow> UnwrappedLineParser \<Rightarrow> UnwrappedLineParser" where
  "trackBranch (PP_if alwaysFalse) P = parsePPIf alwaysFalse P"
| "trackBranch PP_ifdef P = parsePPIfdef P"
| "trackBranch PP_elif P = parsePPElIf P"
| "trackBranch PP_else P = parsePPElse P"
| "trackBranch PP_endif P = parsePPEndIf P"
| "trackBranch PP_other P = P"

text \<open>
  Modelled from the spec: \<open>parsePPDirective\<close> is only declared. "Preprocessor directives
  are parsed out of band: a directive encountered while the current logical line is
  incomplete is buffered separately". The line in progress is set aside; when it has
  tokens and lines were going to \<open>Lines\<close>, the directive's line goes to
  \<open>PreprocessorDirectives\<close> instead. The directive's tokens form a line of their own,
  a default-constructed line marked as part of a preprocessor directive; the branch-kind
  stack is updated; the directive's line completes; then the line in progress and
  \<open>CurrentLines\<close> are as before.
\<close>

definition parsePPDirective ::
  "PPDirective \<Rightarrow> ptr list \<Rightarrow> UnwrappedLineParser \<Rightarrow> UnwrappedLineParser" where
  "parsePPDirective k ts P =
    (let interrupted = (Tokens (Line P) \<noteq> [] \<and> CurrentLines P = ToLines);
         P1 = P\<lparr>Line := UnwrappedLine [] 0 True False,
                CurrentLines := (if interrupted then ToPreprocessorDirectives
                                 else CurrentLines P)\<rparr>;
         P2 = addUnwrappedLine (trackBranch k (fold pushToken ts P1))
     in P2\<lparr>Line := Line P, CurrentLines := CurrentLines P\<rparr>)"

text \<open>
  Modelled from the spec: the reading loop (\<open>readToken\<close>, \<open>nextToken\<close> and the
  \<open>parse...\<close> functions) is only declared. Every token is kept in the line in progress.
  A stray token raises the structural-error flag and parsing goes on ("sets the
  structural-error flag and continues with best-effort grouping"), except inside an
  unreachable branch, whose content is "excluded from normal structural validation
  (they are still retained as opaque content)".
\<close>

fun step :: "Input \<Rightarrow> UnwrappedLineParser \<Rightarrow> UnwrappedLineParser" where
  "step (Token t) P = pushToken t P"
| "step (StrayToken t) P =
     pushToken t (if unreachable P then P else P\<lparr>StructuralError := True\<rparr>)"
| "step EndOfLine P = addUnwrappedLine P"
| "step (Directive k h ts) P = parsePPDirective k (h # ts) P"

text \<open>
  Modelled from the spec: the parser reads its input from first to last.
\<close>

definition run :: "Input list \<Rightarrow> UnwrappedLineParser \<Rightarrow> UnwrappedLineParser" where
  "run es P = fold step es P"

text \<open>
  The input between a conditional directive and the directive that ends its branch:
  with \<open>d\<close> conditionals open inside the branch, every \<open>#elif\<close>, \<open>#else\<close> and
  \<open>#endif\<close> belongs to one of them, and all of them are closed at the end.
\<close>

fun branchBody :: "nat \<Rightarrow> Input list \<Rightarrow> bool" where
  "branchBody d [] \<longleftrightarrow> d = 0"
| "branchBody d (Directive (PP_if c) h ts # es) \<longleftrightarrow> branchBody (Suc d) es"
| "branchBody d (Directive PP_ifdef h ts # es) \<longleftrightarrow> branchBody (Suc d) es"
| "branchBody d (Directive PP_elif h ts # es) \<longleftrightarrow> 0 < d \<and> branchBody d es"
| "branchBody d (Directive PP_else h ts # es) \<longleftrightarrow> 0 < d \<and> branchBody d es"
| "branchBody d (Directive PP_endif h ts # es) \<longleftrightarrow> 0 < d \<and> branchBody (d - 1) es"
| "branchBody d (e # es) \<longleftrightarrow> branchBody d es"

text \<open>
  What the input consists of: the tokens outside directives in source order, the
  directives' lines in source order, the tokens of one input, and the tokens a parser
  state holds in its emitted, buffered and current lines.
\<close>

fun inputTokens :: "Input list \<Rightarrow> ptr list" where
  "inputTokens [] = []"
| "inputTokens (Token t # es) = t # inputTokens es"
| "inputTokens (StrayToken t # es) = t # inputTokens es"
| "inputTokens (e # es) = inputTokens es"

fun directiveLines :: "Input list \<Rightarrow> UnwrappedLine list" where
  "directiveLines [] = []"
| "directiveLines (Directive k h ts # es) =
     UnwrappedLine (map (\<lambda>t. UnwrappedLineNode t []) (h # ts)) 0 True False #
     directiveLines es"
| "directiveLines (e # es) = directiveLines es"

fun tokensOfInput :: "Input \<Rightarrow> ptr list" where
  "tokensOfInput (Token t) = [t]"
| "tokensOfInput (StrayToken t) = [t]"
| "tokensOfInput EndOfLine = []"
| "tokensOfInput (Directive k h ts) = h # ts"

definition retainedTokens :: "UnwrappedLineParser \<Rightarrow> ptr list" where
  "retainedTokens P =
     concat (map (\<lambda>l. map Tok (Tokens l)) (Lines P @ PreprocessorDirectives P @ [Line P]))"

section \<open>The comparison operators and their keys\<close>

text \<open>One branch of a comparison chain is one component of the lexicographic order.\<close>

lemma lex_field:
  fixes a b :: "'a::linorder"
  assumes "R \<longleftrightarrow> x < y"
  shows "(if a \<noteq> b then a < b else R) \<longleftrightarrow> (a, x) < (b, y)"
  using assms by auto

lemma lex_flag:
  assumes "R \<longleftrightarrow> x < y"
  shows "(if p \<noteq> q then p else R) \<longleftrightarrow> (\<not> p, x) < (\<not> q, y)"
  using assms by auto

lemma lex_last:
  fixes a b :: "'a::linorder"
  shows "(if a \<noteq> b then a < b else False) \<longleftrightarrow> a < b"
  by auto

lemma lex_field_tail:
  fixes a b :: "'a::linorder"
  assumes "R \<longleftrightarrow> x < y \<or> x = y \<and> T"
  shows "(if a \<noteq> b then a < b else R) \<longleftrightarrow> (a, x) < (b, y) \<or> (a, x) = (b, y) \<and> T"
  using assms by auto

lemma lex_flag_tail:
  assumes "R \<longleftrightarrow> x < y \<or> x = y \<and> T"
  shows "(if p \<noteq> q then p else R) \<longleftrightarrow>
         (\<not> p, x) < (\<not> q, y) \<or> (\<not> p, x) = (\<not> q, y) \<and> T"
  using assms by auto

lemma lex_last_tail:
  fixes a b :: "'a::linorder"
  shows "(if a \<noteq> b then a < b else R) \<longleftrightarrow> a < b \<or> a = b \<and> R"
  by auto

lemma parenLess_key: "parenLess P Q \<longleftrightarrow> paren_key P < paren_key Q"
  unfolding parenLess_def paren_key_def
  by (intro lex_field lex_flag lex_last)

lemma vectorLess_key: "vectorLess xs ys \<longleftrightarrow> map paren_key xs < map paren_key ys"
  by (induction xs ys rule: vectorLess.induct) (auto simp: parenLess_key)

lemma lineLess_key:
  "lineLess S T \<longleftrightarrow>
     line_key S < line_key T \<or>
     line_key S = line_key T \<and>
     (if IgnoreStackForComparison S \<or> IgnoreStackForComparison T then False
      else vectorLess (Stack S) (Stack T))"
  unfolding lineLess_def line_key_def
  by (intro lex_field_tail lex_flag_tail lex_last_tail)

text \<open>
  \<open>LineState::operator<\<close> as one lexicographic order: the seven fields of the key in
  their sequence, then, when neither state has \<open>IgnoreStackForComparison\<close>, the stacks
  frame by frame, each frame by the fields that \<open>ParenState::operator<\<close> reads.
\<close>

lemma lineLess_abs:
  "lineLess S T \<longleftrightarrow>
     line_key S < line_key T \<or>
     line_key S = line_key T \<and> \<not> IgnoreStackForComparison S \<and>
     \<not> IgnoreStackForComparison T \<and>
     map paren_key (Stack S) < map paren_key (Stack T)"
  by (simp add: lineLess_key vectorLess_key)

lemma lineLess_irrefl: "\<not> lineLess A A"
  by (simp add: lineLess_abs)

lemma lineLess_asym: "lineLess A B \<Longrightarrow> \<not> lineLess B A"
  by (auto simp: lineLess_abs)

lemma lineLess_trans: "lineLess A B \<Longrightarrow> lineLess B C \<Longrightarrow> lineLess A C"
  by (auto simp: lineLess_abs)

lemma incomparable_trans_guarded:
  assumes "incomparable A B" and "incomparable B C"
    and "\<not> IgnoreStackForComparison B \<or> IgnoreStackForComparison A \<or>
         IgnoreStackForComparison C"
  shows "incomparable A C"
  using assms unfolding incomparable_def lineLess_abs
  by (metis (full_types) not_less_iff_gr_or_eq)

text \<open>
  Apart from \<open>NestedNameSpecifierContinuation\<close>, \<open>ParenState::operator<\<close> orders any
  two frames that differ: the field's value never reaches the result, and frames with
  different keys are comparable.
\<close>

lemma parenLess_NestedNameSpecifierContinuation_update:
  "parenLess (P\<lparr>NestedNameSpecifierContinuation := v\<rparr>)
             (Q\<lparr>NestedNameSpecifierContinuation := w\<rparr>) = parenLess P Q"
  by (simp add: parenLess_def)

lemma parenLess_total_on_key:
  "paren_key P \<noteq> paren_key Q \<Longrightarrow> parenLess P Q \<or> parenLess Q P"
  by (auto simp: parenLess_key)

section \<open>Memoization order of Search States\<close>

text \<open>
  C1. \<open>LineState::operator<\<close> reads \<open>NextToken\<close>, \<open>Column\<close>,
  \<open>LineContainsContinuedForLoopSection\<close>, \<open>ParenLevel\<close>, \<open>StartOfLineLevel\<close>,
  \<open>LowestLevelOnLine\<close> and \<open>StartOfStringLiteral\<close> in this sequence and leaves the
  stack out when either state has \<open>IgnoreStackForComparison\<close>. The claim that it
  finally compares the full \<open>ParenState\<close> stack fails in the code: two states without
  the flag that agree on the seven fields, with stacks that differ in the
  \<open>NestedNameSpecifierContinuation\<close> of their one frame, have different stacks and
  neither state is less than the other.
\<close>

theorem lineLess_stack_misses_NestedNameSpecifierContinuation:
  "Stack (sampleState [mkParenState 0 0 False False] False 0 0) \<noteq>
     Stack (sampleState
       [(mkParenState 0 0 False False)\<lparr>NestedNameSpecifierContinuation := 4\<rparr>] False 0 0) \<and>
   line_key (sampleState [mkParenState 0 0 False False] False 0 0) =
     line_key (sampleState
       [(mkParenState 0 0 False False)\<lparr>NestedNameSpecifierContinuation := 4\<rparr>] False 0 0) \<and>
   \<not> IgnoreStackForComparison (sampleState [mkParenState 0 0 False False] False 0 0) \<and>
   \<not> IgnoreStackForComparison (sampleState
       [(mkParenState 0 0 False False)\<lparr>NestedNameSpecifierContinuation := 4\<rparr>] False 0 0) \<and>
   \<not> lineLess (sampleState [mkParenState 0 0 False False] False 0 0)
       (sampleState
         [(mkParenState 0 0 False False)\<lparr>NestedNameSpecifierContinuation := 4\<rparr>]
         False 0 0) \<and>
   \<not> lineLess
       (sampleState
         [(mkParenState 0 0 False False)\<lparr>NestedNameSpecifierContinuation := 4\<rparr>]
         False 0 0)
       (sampleState [mkParenState 0 0 False False] False 0 0)"
  by (simp add: lineLess_def sampleState_def line_key_def parenLess_def mkParenState_def)

text \<open>
  C2, as stated, fails: incomparability under \<open>LineState::operator<\<close> is not transitive.
  A state with the stack-ignored flag is equivalent to two states without the flag whose
  stacks differ, and those two are ordered by their stacks.
\<close>

theorem lineLess_incomparable_not_transitive:
  "incomparable (sampleState [] False 0 0) (sampleState [] True 0 0) \<and>
   incomparable (sampleState [] True 0 0)
     (sampleState [mkParenState 0 0 False False] False 0 0) \<and>
   \<not> incomparable (sampleState [] False 0 0)
     (sampleState [mkParenState 0 0 False False] False 0 0)"
  by (simp add: incomparable_def lineLess_def sampleState_def)

text \<open>
  C2, amended. \<open>LineState::operator<\<close> is irreflexive, asymmetric and transitive, and
  incomparability is transitive on every triple \<open>A\<close>, \<open>B\<close>, \<open>C\<close> in which the middle
  state \<open>B\<close> does not have \<open>IgnoreStackForComparison\<close> set, or \<open>A\<close> or \<open>C\<close> has it set.
\<close>

theorem lineLess_strict_order:
  "\<not> lineLess A A \<and>
   (lineLess A B \<longrightarrow> \<not> lineLess B A) \<and>
   (lineLess A B \<and> lineLess B C \<longrightarrow> lineLess A C) \<and>
   (incomparable A B \<and> incomparable B C \<and>
    (\<not> IgnoreStackForComparison B \<or> IgnoreStackForComparison A \<or>
     IgnoreStackForComparison C)
      \<longrightarrow> incomparable A C)"
  using lineLess_irrefl lineLess_asym lineLess_trans incomparable_trans_guarded
  by blast

theorem lineLess_strict_order_witness:
  "lineLess (sampleState [] False 0 0)
     (sampleState [mkParenState 0 0 False False] False 0 0) \<and>
   lineLess (sampleState [mkParenState 0 0 False False] False 0 0)
     (sampleState [mkParenState 4 0 False False] False 0 0) \<and>
   \<not> lineLess (sampleState [mkParenState 0 0 False False] False 0 0)
       (sampleState [] False 0 0) \<and>
   lineLess (sampleState [] False 0 0)
     (sampleState [mkParenState 4 0 False False] False 0 0) \<and>
   incomparable (sampleState [mkParenState 0 0 False False] True 0 0)
     (sampleState [] False 0 0) \<and>
   incomparable (sampleState [] False 0 0)
     (sampleState [mkParenState 4 0 False False] True 0 0) \<and>
   \<not> IgnoreStackForComparison (sampleState [] False 0 0) \<and>
   incomparable (sampleState [mkParenState 0 0 False False] True 0 0)
     (sampleState [mkParenState 4 0 False False] True 0 0)"
proof -
  let ?e = "sampleState [] False 0 0"
  let ?p = "sampleState [mkParenState 0 0 False False] False 0 0"
  let ?q = "sampleState [mkParenState 4 0 False False] False 0 0"
  let ?x = "sampleState [mkParenState 0 0 False False] True 0 0"
  let ?z = "sampleState [mkParenState 4 0 False False] True 0 0"
  have ep: "lineLess ?e ?p" and pq: "lineLess ?p ?q"
    by (simp_all add: lineLess_def sampleState_def parenLess_def mkParenState_def)
  have xe: "incomparable ?x ?e" and ez: "incomparable ?e ?z"
    and e: "\<not> IgnoreStackForComparison ?e"
    by (simp_all add: incomparable_def lineLess_def sampleState_def)
  from lineLess_strict_order [of ?e ?p ?q] ep pq
  have "\<not> lineLess ?p ?e" and "lineLess ?e ?q" by blast+
  moreover from lineLess_strict_order [of ?x ?e ?z] xe ez e
  have "incomparable ?x ?z" by blast
  ultimately show ?thesis using ep pq xe ez e by blast
qed

text \<open>
  C10. The comparison does not read \<open>FirstIndent\<close> or \<open>Line\<close>: two states that agree
  on every compared field are incomparable, whatever their \<open>FirstIndent\<close> and \<open>Line\<close>.
\<close>

theorem lineLess_ignores_FirstIndent_and_Line:
  assumes "NextToken A = NextToken B" and "Column A = Column B"
    and "LineContainsContinuedForLoopSection A = LineContainsContinuedForLoopSection B"
    and "ParenLevel A = ParenLevel B" and "StartOfLineLevel A = StartOfLineLevel B"
    and "LowestLevelOnLine A = LowestLevelOnLine B"
    and "StartOfStringLiteral A = StartOfStringLiteral B"
    and "Stack A = Stack B"
  shows "\<not> lineLess A B \<and> \<not> lineLess B A"
  using assms by (simp add: lineLess_abs line_key_def)

theorem lineLess_ignores_FirstIndent_and_Line_witness:
  "FirstIndent (sampleState [mkParenState 2 2 True False] False 0 64) \<noteq>
     FirstIndent (sampleState [mkParenState 2 2 True False] False 8 128) \<and>
   LineState.Line (sampleState [mkParenState 2 2 True False] False 0 64) \<noteq>
     LineState.Line (sampleState [mkParenState 2 2 True False] False 8 128) \<and>
   \<not> lineLess (sampleState [mkParenState 2 2 True False] False 0 64)
       (sampleState [mkParenState 2 2 True False] False 8 128) \<and>
   \<not> lineLess (sampleState [mkParenState 2 2 True False] False 8 128)
       (sampleState [mkParenState 2 2 True False] False 0 64)"
  using lineLess_ignores_FirstIndent_and_Line
    [of "sampleState [mkParenState 2 2 True False] False 0 64"
        "sampleState [mkParenState 2 2 True False] False 8 128"]
  by (simp add: sampleState_def)

section \<open>Ordering of Nesting Frames\<close>

text \<open>
  C3. The claim that \<open>ParenState::operator<\<close> orders every two frames that differ in a
  stored field fails in the code: two frames built by the constructor that differ only in
  \<open>NestedNameSpecifierContinuation\<close> are different and neither is less than the other.
\<close>

theorem parenLess_misses_NestedNameSpecifierContinuation:
  "mkParenState 0 0 False False \<noteq>
     (mkParenState 0 0 False False)\<lparr>NestedNameSpecifierContinuation := 4\<rparr> \<and>
   \<not> parenLess (mkParenState 0 0 False False)
       ((mkParenState 0 0 False False)\<lparr>NestedNameSpecifierContinuation := 4\<rparr>) \<and>
   \<not> parenLess ((mkParenState 0 0 False False)\<lparr>NestedNameSpecifierContinuation := 4\<rparr>)
       (mkParenState 0 0 False False)"
  by (simp add: parenLess_def mkParenState_def)

section \<open>Default-constructed logical line\<close>

text \<open>
  C9. A default-constructed \<open>UnwrappedLine\<close> has nesting level 0, is not part of a
  preprocessor directive, is not marked must-be-declaration, and has no tokens.
\<close>

theorem UnwrappedLine_ctor_fields:
  "Level UnwrappedLine_ctor = 0 \<and> \<not> InPPDirective UnwrappedLine_ctor \<and>
   \<not> MustBeDeclaration UnwrappedLine_ctor \<and> Tokens UnwrappedLine_ctor = []"
  by (simp add: UnwrappedLine_ctor_def)

section \<open>Properties of the Line Builder's preprocessor handling\<close>

text \<open>What the operations change, field by field.\<close>

lemma Tokens_addNode [simp]: "Tokens (addNode l t) = Tokens l @ [UnwrappedLineNode t []]"
  by (cases l) simp

lemma Level_addNode [simp]: "Level (addNode l t) = Level l"
  by (cases l) simp

lemma InPPDirective_addNode [simp]: "InPPDirective (addNode l t) = InPPDirective l"
  by (cases l) simp

lemma MustBeDeclaration_addNode [simp]:
  "MustBeDeclaration (addNode l t) = MustBeDeclaration l"
  by (cases l) simp

lemma Tokens_clearTokens [simp]: "Tokens (clearTokens l) = []"
  by (cases l) simp

lemma fold_pushToken:
  "fold pushToken ts P =
     P\<lparr>Line := UnwrappedLine (Tokens (Line P) @ map (\<lambda>t. UnwrappedLineNode t []) ts)
                (Level (Line P)) (InPPDirective (Line P)) (MustBeDeclaration (Line P))\<rparr>"
proof (induction ts arbitrary: P)
  case Nil
  then show ?case by simp
next
  case (Cons t ts)
  show ?case
    by (simp add: Cons.IH) (cases "Line P"; simp add: pushToken_def)
qed

lemma trackBranch_Line [simp]: "Line (trackBranch k P) = Line P"
  and trackBranch_Lines [simp]: "Lines (trackBranch k P) = Lines P"
  and trackBranch_PreprocessorDirectives [simp]:
    "PreprocessorDirectives (trackBranch k P) = PreprocessorDirectives P"
  and trackBranch_CurrentLines [simp]: "CurrentLines (trackBranch k P) = CurrentLines P"
  and trackBranch_StructuralError [simp]:
    "StructuralError (trackBranch k P) = StructuralError P"
  by (cases k; simp add: parsePPIf_def parsePPIfdef_def parsePPElIf_def parsePPElse_def
        parsePPEndIf_def pushPPConditional_def popPP_def)+

lemma trackBranch_PPStack_cong:
  "PPStack P = PPStack Q \<Longrightarrow> PPStack (trackBranch k P) = PPStack (trackBranch k Q)"
  by (cases k; simp add: parsePPIf_def parsePPIfdef_def parsePPElIf_def parsePPElse_def
        parsePPEndIf_def pushPPConditional_def popPP_def unreachable_def)

lemma addUnwrappedLine_PPStack [simp]: "PPStack (addUnwrappedLine P) = PPStack P"
  and addUnwrappedLine_StructuralError [simp]:
    "StructuralError (addUnwrappedLine P) = StructuralError P"
  and addUnwrappedLine_CurrentLines [simp]:
    "CurrentLines (addUnwrappedLine P) = CurrentLines P"
  by (simp_all add: addUnwrappedLine_def split: LinesTarget.splits)

lemma fold_pushToken_PPStack [simp]: "PPStack (fold pushToken ts P) = PPStack P"
  and fold_pushToken_StructuralError [simp]:
    "StructuralError (fold pushToken ts P) = StructuralError P"
  by (simp_all add: fold_pushToken)

lemma parsePPDirective_PPStack [simp]:
  "PPStack (parsePPDirective k ts P) = PPStack (trackBranch k P)"
  unfolding parsePPDirective_def Let_def
  by (auto intro!: trackBranch_PPStack_cong)

lemma parsePPDirective_StructuralError [simp]:
  "StructuralError (parsePPDirective k ts P) = StructuralError P"
  unfolding parsePPDirective_def Let_def by simp

lemma parsePPDirective_Line [simp]: "Line (parsePPDirective k ts P) = Line P"
  and parsePPDirective_CurrentLines [simp]:
    "CurrentLines (parsePPDirective k ts P) = CurrentLines P"
  by (simp_all add: parsePPDirective_def Let_def)

lemma parsePPDirective_queues:
  assumes "ts \<noteq> []"
  shows "Lines (parsePPDirective k ts P) =
          (if CurrentLines P = ToLines \<and> Tokens (Line P) = []
           then Lines P @ [UnwrappedLine (map (\<lambda>t. UnwrappedLineNode t []) ts) 0 True False] @
                PreprocessorDirectives P
           else Lines P)"
    and "PreprocessorDirectives (parsePPDirective k ts P) =
          (if CurrentLines P = ToLines \<and> Tokens (Line P) = [] then []
           else PreprocessorDirectives P @
                [UnwrappedLine (map (\<lambda>t. UnwrappedLineNode t []) ts) 0 True False])"
  using assms
  by (simp_all add: parsePPDirective_def Let_def fold_pushToken addUnwrappedLine_def
        split: LinesTarget.splits)

text \<open>Running the parser, and a line in progress that directives interrupt.\<close>

lemma run_Nil [simp]: "run [] P = P"
  by (simp add: run_def)

lemma run_Cons [simp]: "run (e # es) P = run es (step e P)"
  by (simp add: run_def)

lemma run_append [simp]: "run (es @ fs) P = run fs (run es P)"
  by (simp add: run_def)

lemma run_line_in_progress:
  assumes "EndOfLine \<notin> set es" and "CurrentLines S = ToLines" and "Tokens (Line S) \<noteq> []"
  shows "Lines (run es S) = Lines S \<and>
         PreprocessorDirectives (run es S) = PreprocessorDirectives S @ directiveLines es \<and>
         Line (run es S) =
           UnwrappedLine (Tokens (Line S) @ map (\<lambda>t. UnwrappedLineNode t []) (inputTokens es))
             (Level (Line S)) (InPPDirective (Line S)) (MustBeDeclaration (Line S)) \<and>
         CurrentLines (run es S) = ToLines"
  using assms
proof (induction es arbitrary: S)
  case Nil
  then show ?case by simp
next
  case (Cons e es)
  show ?case
  proof (cases e)
    case (Token t)
    with Cons.prems Cons.IH [of "step e S"] show ?thesis
      by (simp add: pushToken_def)
  next
    case (StrayToken t)
    with Cons.prems Cons.IH [of "step e S"] show ?thesis
      by (simp add: pushToken_def)
  next
    case EndOfLine
    with Cons.prems show ?thesis by simp
  next
    case (Directive k h ts)
    with Cons.prems Cons.IH [of "step e S"] show ?thesis
      by (simp add: parsePPDirective_queues)
  qed
qed

text \<open>
  Inside an unreachable branch the stack is a base with only \<open>PP_Unreachable\<close> above
  it, and every input of the branch keeps it so.
\<close>

lemma pushToken_PPStack [simp]: "PPStack (pushToken t P) = PPStack P"
  and pushToken_StructuralError [simp]: "StructuralError (pushToken t P) = StructuralError P"
  by (simp_all add: pushToken_def)

lemma unreachable_replicate:
  "PPStack S = base @ replicate (Suc d) PP_Unreachable \<Longrightarrow> unreachable S"
  by (simp add: unreachable_def)

lemma butlast_replicate_Suc:
  "butlast (base @ replicate (Suc d) x) = base @ replicate d x"
proof -
  have "base @ replicate (Suc d) x = (base @ replicate d x) @ [x]"
    by (simp add: replicate_append_same)
  then show ?thesis by (simp only: butlast_snoc)
qed

lemma trackBranch_in_branch:
  assumes "PPStack S = base @ replicate (Suc d) PP_Unreachable"
  shows "PPStack (trackBranch (PP_if c) S) = base @ replicate (Suc (Suc d)) PP_Unreachable"
    and "PPStack (trackBranch PP_ifdef S) = base @ replicate (Suc (Suc d)) PP_Unreachable"
    and "0 < d \<Longrightarrow> PPStack (trackBranch PP_elif S) = base @ replicate (Suc d) PP_Unreachable"
    and "0 < d \<Longrightarrow> PPStack (trackBranch PP_else S) = base @ replicate (Suc d) PP_Unreachable"
    and "0 < d \<Longrightarrow> PPStack (trackBranch PP_endif S) = base @ replicate d PP_Unreachable"
    and "PPStack (trackBranch PP_other S) = base @ replicate (Suc d) PP_Unreachable"
proof -
  have u: "unreachable S" using assms by (rule unreachable_replicate)
  have b: "butlast (PPStack S) = base @ replicate d PP_Unreachable"
    using assms by (simp only: butlast_replicate_Suc)
  have ne: "PPStack S \<noteq> []" using assms by simp
  have app: "base @ replicate (Suc d) PP_Unreachable @ [PP_Unreachable] =
             base @ replicate (Suc (Suc d)) PP_Unreachable"
    by (simp add: replicate_append_same)
  show "PPStack (trackBranch (PP_if c) S) = base @ replicate (Suc (Suc d)) PP_Unreachable"
    using u assms app by (simp add: parsePPIf_def pushPPConditional_def)
  show "PPStack (trackBranch PP_ifdef S) = base @ replicate (Suc (Suc d)) PP_Unreachable"
    using u assms app by (simp add: parsePPIfdef_def pushPPConditional_def)
  show "PPStack (trackBranch PP_other S) = base @ replicate (Suc d) PP_Unreachable"
    using assms by simp
  show "PPStack (trackBranch PP_endif S) = base @ replicate d PP_Unreachable" if "0 < d"
    using ne b by (simp add: parsePPEndIf_def popPP_def)
  have pop: "PPStack (popPP S) = base @ replicate (Suc (d - 1)) PP_Unreachable" if "0 < d"
    using ne b that by (simp add: popPP_def)
  have push: "PPStack (pushPPConditional (popPP S)) = base @ replicate (Suc d) PP_Unreachable"
    if "0 < d"
  proof -
    from pop [OF that] have "unreachable (popPP S)" by (rule unreachable_replicate)
    moreover have "PPStack (popPP S) @ [PP_Unreachable] =
        base @ replicate (Suc d) PP_Unreachable"
      using ne b by (simp add: popPP_def replicate_append_same)
    ultimately show ?thesis by (simp add: pushPPConditional_def)
  qed
  show "PPStack (trackBranch PP_elif S) = base @ replicate (Suc d) PP_Unreachable" if "0 < d"
    using push [OF that] by (simp add: parsePPElIf_def)
  show "PPStack (trackBranch PP_else S) = base @ replicate (Suc d) PP_Unreachable" if "0 < d"
    using push [OF that] by (simp add: parsePPElse_def)
qed

lemma step_in_branch:
  assumes "branchBody d (e # es)" and "PPStack S = base @ replicate (Suc d) PP_Unreachable"
  shows "\<exists>d'. branchBody d' es \<and>
           PPStack (step e S) = base @ replicate (Suc d') PP_Unreachable \<and>
           StructuralError (step e S) = StructuralError S"
proof (cases e)
  case (Token t)
  with assms show ?thesis by auto
next
  case (StrayToken t)
  with assms unreachable_replicate [OF assms(2)] show ?thesis by auto
next
  case EndOfLine
  with assms show ?thesis by auto
next
  case (Directive k h ts)
  show ?thesis
  proof (cases k)
    case (PP_if c)
    with Directive assms trackBranch_in_branch(1) [OF assms(2)] show ?thesis by auto
  next
    case PP_ifdef
    with Directive assms trackBranch_in_branch(2) [OF assms(2)] show ?thesis by auto
  next
    case PP_elif
    with Directive assms trackBranch_in_branch(3) [OF assms(2)] show ?thesis by auto
  next
    case PP_else
    with Directive assms trackBranch_in_branch(4) [OF assms(2)] show ?thesis by auto
  next
    case PP_endif
    with Directive assms have d: "0 < d" and b: "branchBody (d - 1) es" by auto
    from d trackBranch_in_branch(5) [OF assms(2)]
    have "PPStack (step e S) = base @ replicate (Suc (d - 1)) PP_Unreachable"
      using Directive PP_endif by simp
    with b Directive show ?thesis by auto
  next
    case PP_other
    with Directive assms trackBranch_in_branch(6) [OF assms(2)] show ?thesis by auto
  qed
qed

lemma run_branchBody:
  assumes "branchBody d es" and "PPStack S = base @ replicate (Suc d) PP_Unreachable"
  shows "StructuralError (run es S) = StructuralError S \<and>
         PPStack (run es S) = base @ [PP_Unreachable] \<and>
         (\<forall>n\<le>length es. \<exists>k. PPStack (run (take n es) S) =
                                 base @ replicate (Suc k) PP_Unreachable)"
  using assms
proof (induction es arbitrary: S d)
  case Nil
  then show ?case by auto
next
  case (Cons e es)
  from step_in_branch [OF Cons.prems] obtain d' where
    d': "branchBody d' es" "PPStack (step e S) = base @ replicate (Suc d') PP_Unreachable"
      "StructuralError (step e S) = StructuralError S"
    by blast
  note IH = Cons.IH [OF d'(1) d'(2)]
  have "\<exists>k. PPStack (run (take n (e # es)) S) = base @ replicate (Suc k) PP_Unreachable"
    if "n \<le> length (e # es)" for n
  proof (cases n)
    case 0
    with Cons.prems(2) show ?thesis by auto
  next
    case (Suc m)
    with that IH show ?thesis by simp
  qed
  with IH d'(3) show ?case by simp
qed

text \<open>No input loses a token: each one ends in some line of the parser.\<close>

lemma retainedTokens_step:
  "set (retainedTokens (step e S)) = set (retainedTokens S) \<union> set (tokensOfInput e)"
proof (cases e)
  case (Token t)
  then show ?thesis by (auto simp: retainedTokens_def pushToken_def)
next
  case (StrayToken t)
  then show ?thesis by (auto simp: retainedTokens_def pushToken_def)
next
  case EndOfLine
  then show ?thesis
    by (auto simp: retainedTokens_def addUnwrappedLine_def split: LinesTarget.splits)
next
  case (Directive k h ts)
  then show ?thesis
    by (auto simp: retainedTokens_def parsePPDirective_queues image_image)
qed

lemma retainedTokens_run:
  "set (retainedTokens (run es S)) =
     set (retainedTokens S) \<union> set (concat (map tokensOfInput es))"
  by (induction es arbitrary: S) (auto simp: retainedTokens_step)

section \<open>Out-of-band directives and unreachable branches\<close>

text \<open>
  C6. A directive that appears while a logical line is incomplete is buffered in
  \<open>PreprocessorDirectives\<close> and reaches \<open>Lines\<close> only when the interrupted line
  completes: from a parser that emits to \<open>Lines\<close> with nothing buffered, after a token
  \<open>a\<close> and any further tokens and directives \<open>es\<close> nothing has been emitted and the
  directives of \<open>es\<close> are buffered in source order; when the line completes, \<open>Lines\<close>
  gains the interrupted line, holding \<open>a\<close> and all tokens of \<open>es\<close> contiguously and in
  order, followed by the directives' lines in source order, and the buffer is empty.
\<close>

theorem directive_buffered_until_line_completes:
  assumes "EndOfLine \<notin> set es" and "CurrentLines P = ToLines"
    and "PreprocessorDirectives P = []"
  shows "Lines (run (Token a # es) P) = Lines P \<and>
         PreprocessorDirectives (run (Token a # es) P) = directiveLines es \<and>
         Lines (run (Token a # es @ [EndOfLine]) P) =
           Lines P @
           [UnwrappedLine
              (Tokens (Line P) @ map (\<lambda>t. UnwrappedLineNode t []) (a # inputTokens es))
              (Level (Line P)) (InPPDirective (Line P)) (MustBeDeclaration (Line P))] @
           directiveLines es \<and>
         PreprocessorDirectives (run (Token a # es @ [EndOfLine]) P) = [] \<and>
         Tokens (Line (run (Token a # es @ [EndOfLine]) P)) = []"
proof -
  let ?S = "step (Token a) P"
  have S: "CurrentLines ?S = ToLines" "Tokens (Line ?S) \<noteq> []"
    "Lines ?S = Lines P" "PreprocessorDirectives ?S = []"
    "Tokens (Line ?S) = Tokens (Line P) @ [UnwrappedLineNode a []]"
    "Level (Line ?S) = Level (Line P)" "InPPDirective (Line ?S) = InPPDirective (Line P)"
    "MustBeDeclaration (Line ?S) = MustBeDeclaration (Line P)"
    using assms by (simp_all add: pushToken_def)
  from run_line_in_progress [OF assms(1) S(1) S(2)] S
  show ?thesis
    by (simp add: addUnwrappedLine_def)
qed

theorem directive_buffered_until_line_completes_witness:
  "EndOfLine \<notin> set [Token 2, Directive PP_other 3 [4], Token 5] \<and>
   CurrentLines initialParser = ToLines \<and>
   PreprocessorDirectives initialParser = [] \<and>
   Lines (run (Token 1 # [Token 2, Directive PP_other 3 [4], Token 5]) initialParser) = [] \<and>
   PreprocessorDirectives
     (run (Token 1 # [Token 2, Directive PP_other 3 [4], Token 5]) initialParser) =
     [UnwrappedLine [UnwrappedLineNode 3 [], UnwrappedLineNode 4 []] 0 True False] \<and>
   Lines (run (Token 1 # [Token 2, Directive PP_other 3 [4], Token 5] @ [EndOfLine])
            initialParser) =
     [UnwrappedLine [UnwrappedLineNode 1 [], UnwrappedLineNode 2 [], UnwrappedLineNode 5 []]
        0 False False,
      UnwrappedLine [UnwrappedLineNode 3 [], UnwrappedLineNode 4 []] 0 True False] \<and>
   PreprocessorDirectives
     (run (Token 1 # [Token 2, Directive PP_other 3 [4], Token 5] @ [EndOfLine])
        initialParser) = []"
proof -
  let ?es = "[Token 2, Directive PP_other 3 [4], Token 5]"
  have h: "EndOfLine \<notin> set ?es" "CurrentLines initialParser = ToLines"
    "PreprocessorDirectives initialParser = []"
    by (simp_all add: initialParser_def)
  have v: "Lines initialParser = []" "Line initialParser = UnwrappedLine [] 0 False False"
    "directiveLines ?es =
       [UnwrappedLine [UnwrappedLineNode 3 [], UnwrappedLineNode 4 []] 0 True False]"
    "inputTokens ?es = [2, 5]"
    by (simp_all add: initialParser_def UnwrappedLine_ctor_def)
  from directive_buffered_until_line_completes [OF h, of 1] h v
  show ?thesis by simp
qed

text \<open>
  C5. The branch of an always-false \<open>#if\<close> is unreachable, with everything nested in it:
  for any input \<open>body\<close> that forms the branch (its own conditionals closed, no \<open>#elif\<close>,
  \<open>#else\<close> or \<open>#endif\<close> of the \<open>#if 0\<close> itself), at every point of \<open>body\<close> the
  branch-kind stack is the stack before the \<open>#if 0\<close> with only \<open>PP_Unreachable\<close>
  entries above it; after the closing \<open>#endif\<close> the stack is as before; the
  structural-error flag is what it was before the \<open>#if 0\<close>, whatever stray tokens
  \<open>body\<close> has; and every token of \<open>body\<close> is in a line of the parser.
\<close>

theorem unreachable_branch_not_validated:
  assumes "branchBody 0 body"
  shows "StructuralError
           (run (Directive (PP_if True) h c # body @ [Directive PP_endif h' c']) P) =
           StructuralError P \<and>
         PPStack (run (Directive (PP_if True) h c # body @ [Directive PP_endif h' c']) P) =
           PPStack P \<and>
         (\<forall>n\<le>length body. \<exists>k.
            PPStack (run (Directive (PP_if True) h c # take n body) P) =
              PPStack P @ replicate (Suc k) PP_Unreachable) \<and>
         set (concat (map tokensOfInput body)) \<subseteq>
           set (retainedTokens
             (run (Directive (PP_if True) h c # body @ [Directive PP_endif h' c']) P))"
proof -
  let ?S = "step (Directive (PP_if True) h c) P"
  have S: "PPStack ?S = PPStack P @ replicate (Suc 0) PP_Unreachable"
    "StructuralError ?S = StructuralError P"
    by (simp_all add: parsePPIf_def)
  note B = run_branchBody [OF assms S(1)]
  have "PPStack (run body ?S) \<noteq> []" "butlast (PPStack (run body ?S)) = PPStack P"
    using B by simp_all
  then have "PPStack (step (Directive PP_endif h' c') (run body ?S)) = PPStack P"
    by (simp add: parsePPEndIf_def popPP_def)
  moreover have "set (concat (map tokensOfInput body)) \<subseteq>
      set (retainedTokens
        (run (Directive (PP_if True) h c # body @ [Directive PP_endif h' c']) P))"
    unfolding retainedTokens_run by auto
  ultimately show ?thesis using B S(2) by simp
qed

text \<open>
  An instance: \<open>#if 0\<close>, a stray token, a nested \<open>#ifdef\<close> with a stray token in each
  of its two branches, \<open>#endif\<close>. The flag stays down and the stray tokens are kept;
  the first stray token alone, outside any conditional, raises the flag.
\<close>

theorem unreachable_branch_not_validated_witness:
  "branchBody 0 [StrayToken 11, Directive PP_ifdef 12 [13], StrayToken 14,
                 Directive PP_else 15 [], StrayToken 16, Directive PP_endif 17 []] \<and>
   \<not> StructuralError
       (run (Directive (PP_if True) 9 [10] #
             [StrayToken 11, Directive PP_ifdef 12 [13], StrayToken 14,
              Directive PP_else 15 [], StrayToken 16, Directive PP_endif 17 []] @
             [Directive PP_endif 18 []]) initialParser) \<and>
   PPStack
       (run (Directive (PP_if True) 9 [10] #
             [StrayToken 11, Directive PP_ifdef 12 [13], StrayToken 14,
              Directive PP_else 15 [], StrayToken 16, Directive PP_endif 17 []] @
             [Directive PP_endif 18 []]) initialParser) = [] \<and>
   {11, 14, 16} \<subseteq> set (retainedTokens
       (run (Directive (PP_if True) 9 [10] #
             [StrayToken 11, Directive PP_ifdef 12 [13], StrayToken 14,
              Directive PP_else 15 [], StrayToken 16, Directive PP_endif 17 []] @
             [Directive PP_endif 18 []]) initialParser)) \<and>
   PPStack (run [Directive (PP_if True) 9 [10], StrayToken 11, Directive PP_ifdef 12 [13]]
              initialParser) = [PP_Unreachable, PP_Unreachable] \<and>
   StructuralError (run [StrayToken 11] initialParser)"
proof -
  let ?body = "[StrayToken 11, Directive PP_ifdef 12 [13], StrayToken 14,
                Directive PP_else 15 [], StrayToken 16, Directive PP_endif 17 []]"
  have h: "branchBody 0 ?body" by simp
  have v: "\<not> StructuralError initialParser" "PPStack initialParser = []"
    by (simp_all add: initialParser_def)
  have t: "{11, 14, 16} \<subseteq> set (concat (map tokensOfInput ?body))" by simp
  have p: "PPStack (run [Directive (PP_if True) 9 [10], StrayToken 11,
                         Directive PP_ifdef 12 [13]] initialParser) =
           [PP_Unreachable, PP_Unreachable]"
    by (simp add: initialParser_def parsePPIf_def parsePPIfdef_def pushPPConditional_def
          unreachable_def)
  have s: "StructuralError (run [StrayToken 11] initialParser)"
    by (simp add: initialParser_def unreachable_def)
  from unreachable_branch_not_validated [OF h, of 9 "[10]" 18 "[]" initialParser] v t
  have "\<not> StructuralError
          (run (Directive (PP_if True) 9 [10] # ?body @ [Directive PP_endif 18 []])
             initialParser)"
    and "PPStack (run (Directive (PP_if True) 9 [10] # ?body @ [Directive PP_endif 18 []])
             initialParser) = []"
    and "{11, 14, 16} \<subseteq> set (retainedTokens
          (run (Directive (PP_if True) 9 [10] # ?body @ [Directive PP_endif 18 []])
             initialParser))"
    by (simp, simp, blast)
  with h p s show ?thesis by blast
qed

end
